theory Spec2Isabelle
  imports Complex_Main
begin

section \<open>JavaScript values used by the service layer\<close>

text \<open>
  A JavaScript string is a sequence of UTF-16 code units. String literals of the source
  are ASCII, so \<open>js ''abc''\<close> gives their code units.
\<close>

type_synonym jsstring = "nat list"

definition js :: "string \<Rightarrow> jsstring" where
  "js s = map of_char s"

text \<open>
  \<^verbatim>\<open>String.prototype.trim\<close> removes the WhiteSpace and LineTerminator code points of
  ECMAScript from both ends: U+0009 to U+000D, U+0020, U+00A0, U+1680, U+2000 to U+200A,
  U+2028, U+2029, U+202F, U+205F, U+3000 and U+FEFF.
\<close>

definition isWhiteSpace :: "nat \<Rightarrow> bool" where
  "isWhiteSpace c =
     (c \<in> {9, 10, 11, 12, 13, 32, 160, 5760, 8232, 8233, 8239, 8287, 12288, 65279}
      \<or> (8192 \<le> c \<and> c \<le> 8202))"

definition trim :: "jsstring \<Rightarrow> jsstring" where
  "trim s = rev (dropWhile isWhiteSpace (rev (dropWhile isWhiteSpace s)))"

definition startsWith :: "jsstring \<Rightarrow> jsstring \<Rightarrow> bool" where
  "startsWith s p = (take (length p) s = p)"


text \<open>
  The values \<^verbatim>\<open>JSON.parse\<close> produces. An object is the list of its own properties
  (each key once).
\<close>

datatype json =
    JNull
  | JBool bool
  | JNumber real
  | JString jsstring
  | JArray "json list"
  | JObject "(jsstring \<times> json) list"

text \<open>
  A thrown value: \<open>Error\<close> is \<^verbatim>\<open>new Error(message)\<close> of the source, \<open>TypeError\<close> and
  \<open>SyntaxError\<close> are raised by the engine (property read on \<^verbatim>\<open>null\<close> or
  \<^verbatim>\<open>undefined\<close>, \<^verbatim>\<open>JSON.parse\<close>); each carries its message.
\<close>

datatype js_error = Error jsstring | TypeError jsstring | SyntaxError jsstring

fun message :: "js_error \<Rightarrow> jsstring" where
  "message (Error m) = m"
| "message (TypeError m) = m"
| "message (SyntaxError m) = m"

text \<open>\<^verbatim>\<open>try { body } catch (e) { handler }\<close>: an error of the body goes to the handler.\<close>

definition try_catch :: "'e + 'a \<Rightarrow> ('e \<Rightarrow> 'f + 'a) \<Rightarrow> 'f + 'a" where
  "try_catch body handler = (case body of Inl e \<Rightarrow> handler e | Inr v \<Rightarrow> Inr v)"

text \<open>
  What the source takes from the JavaScript engine: \<^verbatim>\<open>JSON.parse\<close>, which returns the
  parsed value or the SyntaxError it raises, and the property names that the built-in
  prototypes define (\<^verbatim>\<open>Object.prototype\<close>, \<^verbatim>\<open>Array.prototype\<close> and those of the
  primitive wrappers). Both are parameters: every theorem holds for every engine.
\<close>

type_synonym parser = "jsstring \<Rightarrow> js_error + json"

record engine =
  JSON_parse :: parser
  objectPrototype :: "jsstring list"
  arrayPrototype :: "jsstring list"
  stringPrototype :: "jsstring list"
  numberPrototype :: "jsstring list"
  booleanPrototype :: "jsstring list"

text \<open>The names a value inherits: its own prototype first, then \<^verbatim>\<open>Object.prototype\<close>.\<close>

fun prototypeChain :: "engine \<Rightarrow> json \<Rightarrow> jsstring list" where
  "prototypeChain engine (JObject props) = objectPrototype engine"
| "prototypeChain engine (JArray xs) = arrayPrototype engine @ objectPrototype engine"
| "prototypeChain engine (JString s) = stringPrototype engine @ objectPrototype engine"
| "prototypeChain engine (JNumber n) = numberPrototype engine @ objectPrototype engine"
| "prototypeChain engine (JBool b) = booleanPrototype engine @ objectPrototype engine"
| "prototypeChain engine JNull = []"

text \<open>
  An array index as a property key: decimal digits (code units 48 to 57) with no
  leading zero.
\<close>

definition arrayIndex :: "jsstring \<Rightarrow> nat option" where
  "arrayIndex key =
     (if key \<noteq> [] \<and> list_all (\<lambda>c. 48 \<le> c \<and> c \<le> 57) key \<and> (length key = 1 \<or> hd key \<noteq> 48)
      then Some (foldl (\<lambda>n c. 10 * n + (c - 48)) 0 key)
      else None)"

text \<open>
  The own properties of a parsed value: the members of an object; the elements and
  the \<^verbatim>\<open>length\<close> of an array; the code units and the \<^verbatim>\<open>length\<close> of a string.
\<close>

fun ownProperty :: "json \<Rightarrow> jsstring \<Rightarrow> json option" where
  "ownProperty (JObject props) key = map_of props key"
| "ownProperty (JArray xs) key =
     (if key = js ''length'' then Some (JNumber (real (length xs)))
      else
        (case arrayIndex key of
           Some i \<Rightarrow> if i < length xs then Some (xs ! i) else None
         | None \<Rightarrow> None))"
| "ownProperty (JString s) key =
     (if key = js ''length'' then Some (JNumber (real (length s)))
      else
        (case arrayIndex key of
           Some i \<Rightarrow> if i < length s then Some (JString [s ! i]) else None
         | None \<Rightarrow> None))"
| "ownProperty v key = None"

text \<open>
  What a property read gives: \<open>None\<close> is \<^verbatim>\<open>undefined\<close>, \<open>Data\<close> a value of the parsed
  data, \<open>Inherited\<close> what a prototype defines under the name (a method or another
  built-in value, never a string).
\<close>

datatype jsvalue = Data json | Inherited

text \<open>
  The property read \<^verbatim>\<open>parsedData[key]\<close>: an own property, else a name of the prototype
  chain, else \<^verbatim>\<open>undefined\<close>. Reading a property of \<^verbatim>\<open>null\<close> raises a TypeError; its
  message is worded as V8 words it, with the key between apostrophes (code unit 39).
\<close>

fun getProp :: "engine \<Rightarrow> json \<Rightarrow> jsstring \<Rightarrow> js_error + jsvalue option" where
  "getProp engine JNull key =
     Inl (TypeError (js ''Cannot read properties of null (reading '' @ [39] @ key @ [39] @ js '')''))"
| "getProp engine v key =
     Inr (case ownProperty v key of
            Some x \<Rightarrow> Some (Data x)
          | None \<Rightarrow> if key \<in> set (prototypeChain engine v) then Some Inherited else None)"

section \<open>Response contract layer: parseAndValidateJSON\<close>

definition FormatError :: js_error where
  "FormatError =
     Error (js ''The AI returned a response in an unexpected format. Please try again.'')"

text \<open>
  The loop \<^verbatim>\<open>for (const key of schemaKeys)\<close> of parseAndValidateJSON: a key that reads
  \<^verbatim>\<open>undefined\<close> throws unless it is \<^verbatim>\<open>followUpQuestion\<close>. Code unit 34 is the
  double quote of the message.
\<close>

fun checkKeys :: "engine \<Rightarrow> json \<Rightarrow> jsstring list \<Rightarrow> js_error + unit" where
  "checkKeys engine parsedData [] = Inr ()"
| "checkKeys engine parsedData (key # keys) =
     (case getProp engine parsedData key of
        Inl e \<Rightarrow> Inl e
      | Inr None \<Rightarrow>
          if key = js ''followUpQuestion'' then checkKeys engine parsedData keys
          else Inl (Error (js ''Invalid data structure from AI: missing key '' @ [34] @ key @ [34] @ js ''.''))
      | Inr (Some v) \<Rightarrow> checkKeys engine parsedData keys)"

definition parseAndValidateJSON :: "engine \<Rightarrow> jsstring \<Rightarrow> jsstring list \<Rightarrow> js_error + json" where
  "parseAndValidateJSON engine responseText schemaKeys =
     try_catch
       (let jsonText = trim responseText in
        if jsonText = [] \<or> (\<not> startsWith jsonText (js ''{'') \<and> \<not> startsWith jsonText (js ''[''))
        then Inl (Error (js ''AI returned non-JSON response.''))
        else
          (case JSON_parse engine jsonText of
             Inl e \<Rightarrow> Inl e
           | Inr parsedData \<Rightarrow>
               (case checkKeys engine parsedData schemaKeys of
                  Inl e \<Rightarrow> Inl e
                | Inr u \<Rightarrow> Inr parsedData)))
       (\<lambda>e. Inl FormatError)"

text \<open>
  After the delimiter check the text starts with an opening brace or bracket, and by the
  JSON grammar a text that parses is then an object or an array. This is the fact about
  \<^verbatim>\<open>JSON.parse\<close> that the parameter has to satisfy at the text it is given.
\<close>

fun isObject :: "json \<Rightarrow> bool" where
  "isObject (JObject props) = True"
| "isObject v = False"

fun isArray :: "json \<Rightarrow> bool" where
  "isArray (JArray xs) = True"
| "isArray v = False"

definition delimiterDeterminesKind :: "engine \<Rightarrow> jsstring \<Rightarrow> bool" where
  "delimiterDeterminesKind engine jsonText =
     (case JSON_parse engine jsonText of
        Inl e \<Rightarrow> True
      | Inr v \<Rightarrow>
          if startsWith jsonText (js ''{'') then isObject v
          else if startsWith jsonText (js ''['') then isArray v
          else True)"

section \<open>AI gateway\<close>

text \<open>
  Each operation awaits one \<^verbatim>\<open>ai.models.generateContent\<close> call. Its outcome is the
  parameter \<open>response\<close>: \<open>Inl e\<close> when the call rejects with \<open>e\<close>, \<open>Inr text\<close> when it
  resolves and \<^verbatim>\<open>response.text\<close> is \<open>text\<close>. The prompt and the schema only travel to
  the service, so the role, description and other prompt inputs are not parameters. A
  gateway call that never settles is outside this model.
\<close>

type_synonym gateway_response = "js_error + jsstring"

subsection \<open>validateJobInput\<close>

text \<open>
  \<^verbatim>\<open>['valid', 'improvable', 'invalid'].includes(parsed.status)\<close> holds for a string
  equal to one of the three, and \<^verbatim>\<open>typeof parsed.reason !== 'string'\<close> for everything
  but a string.
\<close>

fun includesStatus :: "jsvalue option \<Rightarrow> bool" where
  "includesStatus (Some (Data (JString s))) =
     (s \<in> set [js ''valid'', js ''improvable'', js ''invalid''])"
| "includesStatus v = False"

fun typeofString :: "jsvalue option \<Rightarrow> bool" where
  "typeofString (Some (Data (JString s))) = True"
| "typeofString v = False"

definition validationFallback :: json where
  "validationFallback =
     JObject [(js ''status'', JString (js ''valid'')),
              (js ''reason'', JString (js ''Validation check failed, proceeding anyway.''))]"

definition validateJobInput :: "engine \<Rightarrow> gateway_response \<Rightarrow> js_error + json" where
  "validateJobInput engine response =
     try_catch
       (case response of
          Inl e \<Rightarrow> Inl e
        | Inr text \<Rightarrow>
            (case JSON_parse engine (trim text) of
               Inl e \<Rightarrow> Inl e
             | Inr parsed \<Rightarrow>
                 (case getProp engine parsed (js ''status'') of
                    Inl e \<Rightarrow> Inl e
                  | Inr status \<Rightarrow>
                      if \<not> includesStatus status
                      then Inl (Error (js ''AI returned an invalid validation structure.''))
                      else
                        (case getProp engine parsed (js ''reason'') of
                           Inl e \<Rightarrow> Inl e
                         | Inr reason \<Rightarrow>
                             if \<not> typeofString reason
                             then Inl (Error (js ''AI returned an invalid validation structure.''))
                             else Inr parsed))))
       (\<lambda>error. Inr validationFallback)"

subsection \<open>generateInterviewQuestions\<close>

definition questionsGenerationError :: js_error where
  "questionsGenerationError =
     Error (js ''Could not generate interview questions. This could be due to a network issue or a content safety filter on your input. Please check your job description for sensitive terms or try again later.'')"

definition generateInterviewQuestions :: "engine \<Rightarrow> gateway_response \<Rightarrow> js_error + json" where
  "generateInterviewQuestions engine response =
     try_catch
       (case response of
          Inl e \<Rightarrow> Inl e
        | Inr text \<Rightarrow>
            parseAndValidateJSON engine text
              [js ''questions'', js ''companyName'', js ''approachGuide''])
       (\<lambda>error. Inl questionsGenerationError)"

subsection \<open>fileToGenerativePart, transcribeAudio and generateAnswerFeedback\<close>

text \<open>
  A promise that is awaited either settles or never does.
\<close>

datatype 'a settled = NeverSettles | Settles 'a

text \<open>
  \<^verbatim>\<open>s.split(',')[1]\<close>: the text between the first and the second comma, \<^verbatim>\<open>undefined\<close>
  when \<open>s\<close> has no comma (code unit 44).
\<close>

definition afterFirstComma :: "jsstring \<Rightarrow> jsstring option" where
  "afterFirstComma s =
     (case dropWhile (\<lambda>c. c \<noteq> 44) s of
        [] \<Rightarrow> None
      | comma # rest \<Rightarrow> Some (takeWhile (\<lambda>c. c \<noteq> 44) rest))"

text \<open>
  fileToGenerativePart. \<open>readerResult\<close> is \<^verbatim>\<open>reader.result\<close> when the FileReader is done:
  the data URL of the file, or \<^verbatim>\<open>null\<close> (\<open>None\<close>) when the read failed. The promise is
  built with \<^verbatim>\<open>resolve\<close> only and resolves inside \<^verbatim>\<open>onloadend\<close>; on \<^verbatim>\<open>null\<close> the
  callback throws before it resolves, and nothing rejects the promise, so it never
  settles. The result is the \<^verbatim>\<open>data\<close> of the part.
\<close>

definition fileToGenerativePart :: "jsstring option \<Rightarrow> jsstring option settled" where
  "fileToGenerativePart readerResult =
     (case readerResult of
        None \<Rightarrow> NeverSettles
      | Some dataUrl \<Rightarrow> Settles (afterFirstComma dataUrl))"

definition transcriptionError :: js_error where
  "transcriptionError =
     Error (js ''Failed to transcribe your audio. The file might be in an unsupported format, or the AI service may be temporarily unavailable. Please try again.'')"

text \<open>
  transcribeAudio awaits the part inside its \<^verbatim>\<open>try\<close> and then the gateway call, to which
  the part travels.
\<close>

definition transcribeAudio ::
  "jsstring option \<Rightarrow> gateway_response \<Rightarrow> (js_error + jsstring) settled" where
  "transcribeAudio readerResult response =
     (case fileToGenerativePart readerResult of
        NeverSettles \<Rightarrow> NeverSettles
      | Settles audioPart \<Rightarrow>
          Settles
            (try_catch
               (case response of
                  Inl e \<Rightarrow> Inl e
                | Inr text \<Rightarrow> Inr (trim text))
               (\<lambda>error. Inl transcriptionError)))"

definition feedbackGenerationError :: js_error where
  "feedbackGenerationError =
     Error (js ''Failed to generate feedback for your answer. There might be a temporary issue with the AI service. Please try again.'')"

definition generateAnswerFeedback :: "engine \<Rightarrow> gateway_response \<Rightarrow> js_error + json" where
  "generateAnswerFeedback engine response =
     try_catch
       (case response of
          Inl e \<Rightarrow> Inl e
        | Inr text \<Rightarrow>
            parseAndValidateJSON engine text
              [js ''clarity'', js ''structure'', js ''relevance'', js ''overallImpression'',
               js ''improvementPoints'', js ''followUpQuestion''])
       (\<lambda>error. Inl feedbackGenerationError)"

section \<open>Mock interview state machine\<close>

datatype QuestionCategory = HR | Technical | Behavioral

record InterviewQuestion =
  question :: jsstring
  category :: QuestionCategory
  suggestedAnswer :: jsstring

text \<open>
  An object URL as \<^verbatim>\<open>URL.createObjectURL\<close> returns it: a non-empty string, so a stored one
  is truthy. \<open>feedback\<close> is the parsed StructuredFeedback or a plain string.
\<close>

datatype url = BlobURL nat

datatype feedback_value = Structured json | Plain jsstring

record AnswerFeedback =
  userAnswer :: jsstring
  feedback :: feedback_value
  userAudioUrl :: "url option"

datatype InterviewStep =
  Step_question | Step_feedback | Step_summary | Step_permission_denied | Step_error

datatype MediaStream = MediaStream nat

record MockInterviewState =
  step :: InterviewStep
  currentIndex :: int
  isRecording :: bool
  isProcessing :: bool
  answers :: "int \<rightharpoonup> AnswerFeedback"
  audioStream :: "MediaStream option"
  countdown :: "int option"
  recordingTime :: int
  error :: "jsstring option"
  isQuestionAudioPlaying :: bool

datatype MockInterviewAction =
    START_INTERVIEW
  | CLOSE_INTERVIEW
  | REQUEST_PERMISSION_SUCCESS MediaStream
  | REQUEST_PERMISSION_FAILURE
  | START_COUNTDOWN
  | DECREMENT_COUNTDOWN
  | START_RECORDING
  | STOP_RECORDING
  | START_PROCESSING
  | FINISH_PROCESSING AnswerFeedback
  | PROCESSING_ERROR jsstring
  | NEXT_QUESTION "InterviewQuestion list"
  | RETRY_QUESTION
  | TICK_TIMER
  | PLAY_QUESTION_AUDIO
  | FINISH_QUESTION_AUDIO

definition initialState :: MockInterviewState where
  "initialState =
     \<lparr>step = Step_question, currentIndex = 0, isRecording = False, isProcessing = False,
      answers = Map.empty, audioStream = None, countdown = None, recordingTime = 0,
      error = None, isQuestionAudioPlaying = False\<rparr>"

text \<open>
  The reducer. CLOSE_INTERVIEW and STOP_RECORDING also stop the tracks of the stream
  object they drop; that acts on the stream, not on the state returned.
\<close>

fun mockInterviewReducer :: "MockInterviewState \<Rightarrow> MockInterviewAction \<Rightarrow> MockInterviewState" where
  "mockInterviewReducer state START_INTERVIEW = initialState"
| "mockInterviewReducer state CLOSE_INTERVIEW = initialState\<lparr>audioStream := None\<rparr>"
| "mockInterviewReducer state (REQUEST_PERMISSION_SUCCESS stream) =
     state\<lparr>audioStream := Some stream\<rparr>"
| "mockInterviewReducer state REQUEST_PERMISSION_FAILURE = state\<lparr>step := Step_permission_denied\<rparr>"
| "mockInterviewReducer state START_COUNTDOWN = state\<lparr>countdown := Some 3\<rparr>"
| "mockInterviewReducer state DECREMENT_COUNTDOWN =
     state\<lparr>countdown := (case countdown state of Some c \<Rightarrow> Some (c - 1) | None \<Rightarrow> None)\<rparr>"
| "mockInterviewReducer state START_RECORDING =
     state\<lparr>isRecording := True, countdown := None, recordingTime := 0\<rparr>"
| "mockInterviewReducer state STOP_RECORDING = state\<lparr>isRecording := False, audioStream := None\<rparr>"
| "mockInterviewReducer state START_PROCESSING = state\<lparr>isProcessing := True\<rparr>"
| "mockInterviewReducer state (FINISH_PROCESSING answer) =
     state\<lparr>isProcessing := False, step := Step_feedback,
           answers := (answers state)(currentIndex state \<mapsto> answer),
           isQuestionAudioPlaying := False\<rparr>"
| "mockInterviewReducer state (PROCESSING_ERROR err) =
     state\<lparr>isProcessing := False, step := Step_error, error := Some err\<rparr>"
| "mockInterviewReducer state (NEXT_QUESTION questions) =
     (if currentIndex state < int (length questions) - 1
      then state\<lparr>step := Step_question, currentIndex := currentIndex state + 1,
                 isQuestionAudioPlaying := False\<rparr>
      else state\<lparr>step := Step_summary, isQuestionAudioPlaying := False\<rparr>)"
| "mockInterviewReducer state RETRY_QUESTION =
     state\<lparr>step := Step_question, isQuestionAudioPlaying := False\<rparr>"
| "mockInterviewReducer state TICK_TIMER = state\<lparr>recordingTime := recordingTime state + 1\<rparr>"
| "mockInterviewReducer state PLAY_QUESTION_AUDIO = state\<lparr>isQuestionAudioPlaying := True\<rparr>"
| "mockInterviewReducer state FINISH_QUESTION_AUDIO = state\<lparr>isQuestionAudioPlaying := False\<rparr>"

section \<open>The component: recording, processing and the record control\<close>

text \<open>
  What the modal holds besides the reducer state: the MediaRecorder of the ref
  \<^verbatim>\<open>mediaRecorder\<close> (\<open>None\<close> while the ref is null) and a log of what the handlers did,
  oldest first: the object URLs revoked and created and the actions dispatched.
\<close>

datatype RecordingState = inactive | recording | paused

datatype effect =
    Dispatch MockInterviewAction
  | RevokeObjectURL url
  | CreateObjectURL url

record Component =
  session :: MockInterviewState
  mediaRecorder :: "RecordingState option"
  effects :: "effect list"

definition dispatch :: "MockInterviewAction \<Rightarrow> Component \<Rightarrow> Component" where
  "dispatch action w =
     w\<lparr>session := mockInterviewReducer (session w) action,
       effects := effects w @ [Dispatch action]\<rparr>"

definition perform :: "effect \<Rightarrow> Component \<Rightarrow> Component" where
  "perform e w = w\<lparr>effects := effects w @ [e]\<rparr>"

text \<open>
  What the browser and the gateway hand to one run of the \<^verbatim>\<open>onstop\<close> handler: the sizes
  of the chunks in \<^verbatim>\<open>audioChunks.current\<close> (the Blob built from them has their sum as
  size), the URL that \<^verbatim>\<open>URL.createObjectURL\<close> returns, \<^verbatim>\<open>reader.result\<close> when the
  FileReader of fileToGenerativePart is done with the audio file, and the outcomes of
  the two gateway calls.
\<close>

record ProcessingInputs =
  audioChunks :: "nat list"
  objectURL :: url
  fileRead :: "jsstring option"
  transcription :: gateway_response
  feedbackGeneration :: gateway_response

text \<open>\<^verbatim>\<open>questions[currentIndex]\<close>: \<^verbatim>\<open>undefined\<close> outside the list.\<close>

definition elementAt :: "'a list \<Rightarrow> int \<Rightarrow> 'a option" where
  "elementAt xs i = (if 0 \<le> i \<and> i < int (length xs) then Some (xs ! nat i) else None)"

definition noAudioAnswer :: "url \<Rightarrow> AnswerFeedback" where
  "noAudioAnswer u =
     \<lparr>userAnswer = js ''(No audio was detected)'',
      feedback = Plain (js ''It seems no audio was captured. Please ensure your microphone is working correctly and try recording your answer again.''),
      userAudioUrl = Some u\<rparr>"

definition notUnderstoodAnswer :: "url \<Rightarrow> AnswerFeedback" where
  "notUnderstoodAnswer u =
     \<lparr>userAnswer = js ''(Could not understand audio)'',
      feedback = Plain (js ''We had trouble understanding the audio. Could you please try speaking more clearly and try again?''),
      userAudioUrl = Some u\<rparr>"

text \<open>\<^verbatim>\<open>err.message || "An unknown error ..."\<close>: an empty message is falsy.\<close>

definition processingErrorMessage :: "js_error \<Rightarrow> jsstring" where
  "processingErrorMessage err =
     (if message err = [] then js ''An unknown error occurred while processing your answer.''
      else message err)"


text \<open>
  The \<^verbatim>\<open>try\<close> block of the handler. It never resumes when transcribeAudio never
  settles. \<^verbatim>\<open>currentQuestion.question\<close> is read before generateAnswerFeedback is called
  and raises a TypeError when \<^verbatim>\<open>currentQuestion\<close> is \<^verbatim>\<open>undefined\<close>; the message is
  worded as V8 words it (code unit 39 is the apostrophe).
\<close>

definition processRecording ::
  "engine \<Rightarrow> InterviewQuestion option \<Rightarrow> ProcessingInputs \<Rightarrow> Component \<Rightarrow>
     (js_error + Component) settled" where
  "processRecording engine currentQuestion inp w =
     (case transcribeAudio (fileRead inp) (transcription inp) of
        NeverSettles \<Rightarrow> NeverSettles
      | Settles (Inl e) \<Rightarrow> Settles (Inl e)
      | Settles (Inr transcribedText) \<Rightarrow>
          Settles
            (if trim transcribedText = []
             then Inr (dispatch (FINISH_PROCESSING (notUnderstoodAnswer (objectURL inp))) w)
             else
               (case currentQuestion of
                  None \<Rightarrow>
                    Inl (TypeError
                           (js ''Cannot read properties of undefined (reading '' @ [39]
                              @ js ''question'' @ [39] @ js '')''))
                | Some q \<Rightarrow>
                    (case generateAnswerFeedback engine (feedbackGeneration inp) of
                       Inl e \<Rightarrow> Inl e
                     | Inr fb \<Rightarrow>
                         Inr (dispatch
                                (FINISH_PROCESSING
                                   \<lparr>userAnswer = transcribedText, feedback = Structured fb,
                                    userAudioUrl = Some (objectURL inp)\<rparr>) w)))))"

text \<open>
  The \<^verbatim>\<open>onstop\<close> handler that handleStopRecording installs. \<open>closureAnswers\<close>,
  \<open>closureIndex\<close> and \<open>currentQuestion\<close> are the values of \<^verbatim>\<open>answers\<close>, \<^verbatim>\<open>currentIndex\<close>
  and \<^verbatim>\<open>currentQuestion\<close> that its closure took from the render in which the stop
  control was clicked. The handler runs without other handlers in between; when the
  \<^verbatim>\<open>try\<close> block never resumes, the component stays as the handler left it before the
  \<^verbatim>\<open>await\<close>.
\<close>

definition onstop ::
  "engine \<Rightarrow> (int \<rightharpoonup> AnswerFeedback) \<Rightarrow> int \<Rightarrow> InterviewQuestion option \<Rightarrow>
     ProcessingInputs \<Rightarrow> Component \<Rightarrow> Component" where
  "onstop engine closureAnswers closureIndex currentQuestion inp w =
     (let w1 = dispatch START_PROCESSING w;
          audioBlobSize = sum_list (audioChunks inp);
          w2 = (case closureAnswers closureIndex of
                  None \<Rightarrow> w1
                | Some existingAnswer \<Rightarrow>
                    (case userAudioUrl existingAnswer of
                       None \<Rightarrow> w1
                     | Some u \<Rightarrow> perform (RevokeObjectURL u) w1));
          w3 = perform (CreateObjectURL (objectURL inp)) w2
      in if audioBlobSize < 200
         then dispatch (FINISH_PROCESSING (noAudioAnswer (objectURL inp))) w3
         else
           (case processRecording engine currentQuestion inp w3 of
              NeverSettles \<Rightarrow> w3
            | Settles (Inl err) \<Rightarrow> dispatch (PROCESSING_ERROR (processingErrorMessage err)) w3
            | Settles (Inr w4) \<Rightarrow> w4))"

text \<open>
  handleStopRecording: nothing happens unless the recorder is recording; otherwise the
  recorder is stopped, STOP_RECORDING is dispatched, and the stop event then runs the
  handler.
\<close>

definition handleStopRecording ::
  "engine \<Rightarrow> InterviewQuestion list \<Rightarrow> ProcessingInputs \<Rightarrow> Component \<Rightarrow> Component" where
  "handleStopRecording engine questions inp w =
     (if mediaRecorder w = Some recording
      then onstop engine (answers (session w)) (currentIndex (session w))
             (elementAt questions (currentIndex (session w))) inp
             (dispatch STOP_RECORDING (w\<lparr>mediaRecorder := Some inactive\<rparr>))
      else w)"

text \<open>
  The Record Answer control, whose click handler handleStartRecording dispatches
  START_COUNTDOWN: renderContent shows it for a state that is not processing, in the
  question step, with no countdown and no recording, and it is disabled while the
  question audio plays. This is a condition on the state of the last committed render.
  Neither handleStartRecording nor the reducer looks at the state the action meets.
\<close>

definition recordControlEnabled :: "MockInterviewState \<Rightarrow> bool" where
  "recordControlEnabled state =
     (\<not> isProcessing state \<and> step state = Step_question \<and> countdown state = None
      \<and> \<not> isRecording state \<and> \<not> isQuestionAudioPlaying state)"

text \<open>
  The actions of one recording turn, from the moment the step is question until the
  stop control is clicked: the question is read aloud, the countdown runs, the
  microphone is granted, the recording starts and its clock ticks.
\<close>

fun recordingTurnAction :: "MockInterviewAction \<Rightarrow> bool" where
  "recordingTurnAction PLAY_QUESTION_AUDIO = True"
| "recordingTurnAction FINISH_QUESTION_AUDIO = True"
| "recordingTurnAction START_COUNTDOWN = True"
| "recordingTurnAction DECREMENT_COUNTDOWN = True"
| "recordingTurnAction (REQUEST_PERMISSION_SUCCESS stream) = True"
| "recordingTurnAction START_RECORDING = True"
| "recordingTurnAction TICK_TIMER = True"
| "recordingTurnAction action = False"

section \<open>Example engine, responses and sessions\<close>

text \<open>
  Six response texts and what \<^verbatim>\<open>JSON.parse\<close> makes of them. \<open>exampleParse\<close> agrees
  with \<^verbatim>\<open>JSON.parse\<close> on these texts and stands for it in the examples, which give it
  only these texts and one that is not JSON. \<open>dq\<close> puts a string between double quotes
  (code unit 34).
\<close>

definition dq :: "string \<Rightarrow> jsstring" where
  "dq s = 34 # js s @ [34]"

definition examplePrepText :: jsstring where
  "examplePrepText =
     js ''{'' @ dq ''questions'' @ js '':[],'' @ dq ''companyName'' @ js '':null,''
       @ dq ''approachGuide'' @ js '':'' @ dq ''Research the role'' @ js ''}''"

definition examplePrep :: json where
  "examplePrep =
     JObject [(js ''questions'', JArray []), (js ''companyName'', JNull),
              (js ''approachGuide'', JString (js ''Research the role''))]"

definition exampleFullPrepText :: jsstring where
  "exampleFullPrepText =
     js ''{'' @ dq ''questions'' @ js '':[],'' @ dq ''companyName'' @ js '':'' @ dq ''Acme Corp''
       @ js '','' @ dq ''approachGuide'' @ js '':'' @ dq ''Research the role'' @ js ''}''"

definition exampleFullPrep :: json where
  "exampleFullPrep =
     JObject [(js ''questions'', JArray []), (js ''companyName'', JString (js ''Acme Corp'')),
              (js ''approachGuide'', JString (js ''Research the role''))]"

definition exampleFeedbackText :: jsstring where
  "exampleFeedbackText =
     js ''{'' @ dq ''clarity'' @ js '':4,'' @ dq ''structure'' @ js '':3,''
       @ dq ''relevance'' @ js '':5,'' @ dq ''overallImpression'' @ js '':'' @ dq ''Clear''
       @ js '','' @ dq ''improvementPoints'' @ js '':['' @ dq ''Be concise'' @ js '']}''"

definition exampleFeedback :: json where
  "exampleFeedback =
     JObject [(js ''clarity'', JNumber 4), (js ''structure'', JNumber 3),
              (js ''relevance'', JNumber 5), (js ''overallImpression'', JString (js ''Clear'')),
              (js ''improvementPoints'', JArray [JString (js ''Be concise'')])]"

definition exampleIncompleteText :: jsstring where
  "exampleIncompleteText = js ''{'' @ dq ''clarity'' @ js '':4}''"

definition exampleIncomplete :: json where
  "exampleIncomplete = JObject [(js ''clarity'', JNumber 4)]"

definition exampleVerdictText :: jsstring where
  "exampleVerdictText =
     js ''{'' @ dq ''status'' @ js '':'' @ dq ''improvable'' @ js '',''
       @ dq ''reason'' @ js '':'' @ dq ''Add detail'' @ js ''}''"

definition exampleVerdict :: json where
  "exampleVerdict =
     JObject [(js ''status'', JString (js ''improvable'')),
              (js ''reason'', JString (js ''Add detail''))]"

definition exampleParse :: parser where
  "exampleParse jsonText =
     (if jsonText = examplePrepText then Inr examplePrep
      else if jsonText = exampleFullPrepText then Inr exampleFullPrep
      else if jsonText = exampleFeedbackText then Inr exampleFeedback
      else if jsonText = exampleIncompleteText then Inr exampleIncomplete
      else if jsonText = exampleVerdictText then Inr exampleVerdict
      else if jsonText = js ''[]'' then Inr (JArray [])
      else Inl (SyntaxError (js ''Unexpected token'')))"

text \<open>
  An engine for the examples: \<open>exampleParse\<close>, and prototypes with the names that
  ECMAScript 2023 gives them.
\<close>

definition es2023ObjectPrototype :: "jsstring list" where
  "es2023ObjectPrototype =
     map js [''constructor'', ''hasOwnProperty'', ''isPrototypeOf'', ''propertyIsEnumerable'',
             ''toLocaleString'', ''toString'', ''valueOf'', ''__proto__'',
             ''__defineGetter__'', ''__defineSetter__'', ''__lookupGetter__'',
             ''__lookupSetter__'']"

definition es2023ArrayPrototype :: "jsstring list" where
  "es2023ArrayPrototype =
     map js [''length'', ''constructor'', ''at'', ''concat'', ''copyWithin'', ''entries'',
             ''every'', ''fill'', ''filter'', ''find'', ''findIndex'', ''findLast'',
             ''findLastIndex'', ''flat'', ''flatMap'', ''forEach'', ''includes'', ''indexOf'',
             ''join'', ''keys'', ''lastIndexOf'', ''map'', ''pop'', ''push'', ''reduce'',
             ''reduceRight'', ''reverse'', ''shift'', ''slice'', ''some'', ''sort'', ''splice'',
             ''toLocaleString'', ''toReversed'', ''toSorted'', ''toSpliced'', ''toString'',
             ''unshift'', ''values'', ''with'']"

definition es2023StringPrototype :: "jsstring list" where
  "es2023StringPrototype =
     map js [''length'', ''constructor'', ''at'', ''charAt'', ''charCodeAt'', ''codePointAt'',
             ''concat'', ''endsWith'', ''includes'', ''indexOf'', ''lastIndexOf'',
             ''localeCompare'', ''match'', ''matchAll'', ''normalize'', ''padEnd'', ''padStart'',
             ''repeat'', ''replace'', ''replaceAll'', ''search'', ''slice'', ''split'',
             ''startsWith'', ''substring'', ''toLocaleLowerCase'', ''toLocaleUpperCase'',
             ''toLowerCase'', ''toString'', ''toUpperCase'', ''trim'', ''trimEnd'',
             ''trimStart'', ''valueOf'']"

definition es2023NumberPrototype :: "jsstring list" where
  "es2023NumberPrototype =
     map js [''constructor'', ''toExponential'', ''toFixed'', ''toLocaleString'',
             ''toPrecision'', ''toString'', ''valueOf'']"

definition es2023BooleanPrototype :: "jsstring list" where
  "es2023BooleanPrototype = map js [''constructor'', ''toString'', ''valueOf'']"

definition exampleEngine :: engine where
  "exampleEngine =
     \<lparr>JSON_parse = exampleParse,
      objectPrototype = es2023ObjectPrototype,
      arrayPrototype = es2023ArrayPrototype,
      stringPrototype = es2023StringPrototype,
      numberPrototype = es2023NumberPrototype,
      booleanPrototype = es2023BooleanPrototype\<rparr>"

definition feedbackKeys :: "jsstring list" where
  "feedbackKeys =
     [js ''clarity'', js ''structure'', js ''relevance'', js ''overallImpression'',
      js ''improvementPoints'', js ''followUpQuestion'']"

text \<open>A question list and a component in the middle of a recording, for the examples.\<close>

definition exampleQuestions :: "InterviewQuestion list" where
  "exampleQuestions =
     [\<lparr>question = js ''Why this role?'', category = HR, suggestedAnswer = js ''I believe''\<rparr>,
      \<lparr>question = js ''Describe a conflict.'', category = Behavioral,
       suggestedAnswer = js ''Situation:''\<rparr>]"

definition recordingComponent :: Component where
  "recordingComponent =
     \<lparr>session = initialState\<lparr>isRecording := True, audioStream := Some (MediaStream 0)\<rparr>,
      mediaRecorder = Some recording, effects = []\<rparr>"

definition exampleInputs :: ProcessingInputs where
  "exampleInputs =
     \<lparr>audioChunks = [50], objectURL = BlobURL 1,
      fileRead = Some (js ''data:audio/webm;base64,GkXfo59ChoEB''),
      transcription = Inr (js '' ''), feedbackGeneration = Inr exampleFeedbackText\<rparr>"

text \<open>A clip of 300 bytes whose audio file cannot be read.\<close>

definition unreadableInputs :: ProcessingInputs where
  "unreadableInputs = exampleInputs\<lparr>audioChunks := [150, 150], fileRead := None\<rparr>"

definition exampleTurn :: "MockInterviewAction list" where
  "exampleTurn =
     [PLAY_QUESTION_AUDIO, FINISH_QUESTION_AUDIO, START_COUNTDOWN, DECREMENT_COUNTDOWN,
      DECREMENT_COUNTDOWN, DECREMENT_COUNTDOWN, REQUEST_PERMISSION_SUCCESS (MediaStream 0),
      START_RECORDING, TICK_TIMER]"

definition exampleAnswer :: AnswerFeedback where
  "exampleAnswer =
     \<lparr>userAnswer = js ''I like the team'', feedback = Structured exampleFeedback,
      userAudioUrl = Some (BlobURL 0)\<rparr>"

definition feedbackState :: MockInterviewState where
  "feedbackState =
     initialState\<lparr>step := Step_feedback, currentIndex := 1,
                  answers := [1 \<mapsto> exampleAnswer]\<rparr>"

definition retryComponent :: Component where
  "retryComponent =
     \<lparr>session = foldl mockInterviewReducer (mockInterviewReducer feedbackState RETRY_QUESTION)
                  exampleTurn,
      mediaRecorder = Some recording, effects = []\<rparr>"



section \<open>Properties of the response contract layer and the gateway\<close>

lemma exampleEngine_fields:
  "JSON_parse exampleEngine = exampleParse"
  "objectPrototype exampleEngine = es2023ObjectPrototype"
  "arrayPrototype exampleEngine = es2023ArrayPrototype"
  by (simp_all add: exampleEngine_def)

lemmas example_defs = exampleEngine_fields exampleParse_def examplePrepText_def examplePrep_def
  exampleFullPrepText_def exampleFullPrep_def exampleFeedbackText_def
  exampleFeedback_def exampleIncompleteText_def exampleIncomplete_def exampleVerdictText_def
  exampleVerdict_def dq_def js_def

lemmas prototype_defs = es2023ObjectPrototype_def es2023ArrayPrototype_def

text \<open>
  On an object or an array the key loop succeeds exactly when no key other than
  \<^verbatim>\<open>followUpQuestion\<close> reads \<^verbatim>\<open>undefined\<close>; and wherever it succeeds, every such key is defined.
\<close>

lemma getProp_container:
  "isObject v \<or> isArray v \<Longrightarrow> \<exists>x. getProp engine v key = Inr x"
  by (cases v) simp_all

lemma checkKeys_container:
  assumes "isObject v \<or> isArray v"
  shows "(checkKeys engine v keys = Inr ()) =
     (\<not> (\<exists>key\<in>set keys. key \<noteq> js ''followUpQuestion'' \<and> getProp engine v key = Inr None))"
proof (induction keys)
  case Nil
  show ?case by simp
next
  case (Cons key keys)
  from getProp_container [OF assms] obtain x where "getProp engine v key = Inr x"
    by blast
  with Cons show ?case
    by (cases x) auto
qed

lemma checkKeys_defined:
  "checkKeys engine v keys = Inr () \<Longrightarrow> key \<in> set keys \<Longrightarrow> key \<noteq> js ''followUpQuestion'' \<Longrightarrow>
   \<exists>x. getProp engine v key = Inr (Some x)"
  by (induction keys) (auto split: sum.splits option.splits if_splits)

lemma parseAndValidateJSON_Inr:
  "parseAndValidateJSON engine responseText keys = Inr v \<Longrightarrow>
   JSON_parse engine (trim responseText) = Inr v \<and> checkKeys engine v keys = Inr ()"
  by (auto simp: parseAndValidateJSON_def try_catch_def Let_def split: if_splits sum.splits)

text \<open>
  Claim C1. parseAndValidateJSON fails with the FormatError exactly when the trimmed
  response text is empty, or starts with neither an opening brace nor an opening
  bracket, or \<^verbatim>\<open>JSON.parse\<close> fails, or some key of the key list other than
  \<^verbatim>\<open>followUpQuestion\<close> is undefined in the parsed value; otherwise it returns the parsed
  value. A key is undefined in the parsed value when the read \<^verbatim>\<open>parsedData[key]\<close> gives
  \<^verbatim>\<open>undefined\<close>: the key is no own property of the value and no name of its
  prototypes. The engine is any engine whose \<^verbatim>\<open>JSON.parse\<close> gives an object for a text
  starting with a brace and an array for one starting with a bracket.
\<close>

theorem parseAndValidateJSON_FormatError_iff:
  assumes "delimiterDeterminesKind engine (trim responseText)"
  shows "parseAndValidateJSON engine responseText schemaKeys =
     (if trim responseText = []
         \<or> (\<not> startsWith (trim responseText) (js ''{'') \<and> \<not> startsWith (trim responseText) (js ''[''))
      then Inl FormatError
      else
        (case JSON_parse engine (trim responseText) of
           Inl e \<Rightarrow> Inl FormatError
         | Inr parsedData \<Rightarrow>
             if \<exists>key\<in>set schemaKeys.
                  key \<noteq> js ''followUpQuestion'' \<and> getProp engine parsedData key = Inr None
             then Inl FormatError
             else Inr parsedData))"
proof (cases "trim responseText = []
         \<or> (\<not> startsWith (trim responseText) (js ''{'') \<and> \<not> startsWith (trim responseText) (js ''[''))")
  case True
  then show ?thesis
    by (simp add: parseAndValidateJSON_def try_catch_def)
next
  case delim: False
  show ?thesis
  proof (cases "JSON_parse engine (trim responseText)")
    case (Inl e)
    with delim show ?thesis
      by (simp add: parseAndValidateJSON_def try_catch_def Let_def)
  next
    case (Inr parsedData)
    with assms delim have kind: "isObject parsedData \<or> isArray parsedData"
      by (auto simp: delimiterDeterminesKind_def split: if_splits)
    show ?thesis
    proof (cases "checkKeys engine parsedData schemaKeys")
      case (Inl e)
      then have "checkKeys engine parsedData schemaKeys \<noteq> Inr ()" by simp
      with checkKeys_container [OF kind, of engine schemaKeys]
      have "\<exists>key\<in>set schemaKeys.
              key \<noteq> js ''followUpQuestion'' \<and> getProp engine parsedData key = Inr None"
        by blast
      with delim Inr Inl show ?thesis
        by (simp add: parseAndValidateJSON_def try_catch_def Let_def)
    next
      case ok: (Inr u)
      then have "checkKeys engine parsedData schemaKeys = Inr ()" by simp
      with checkKeys_container [OF kind, of engine schemaKeys]
      have "\<not> (\<exists>key\<in>set schemaKeys.
                 key \<noteq> js ''followUpQuestion'' \<and> getProp engine parsedData key = Inr None)"
        by blast
      with delim Inr ok show ?thesis
        by (simp add: parseAndValidateJSON_def try_catch_def Let_def)
    qed
  qed
qed

text \<open>
  The feedback response without \<^verbatim>\<open>followUpQuestion\<close> is returned; the response that
  holds only \<^verbatim>\<open>clarity\<close> fails; and the empty array is returned for the key
  \<^verbatim>\<open>length\<close>, which every array has, and fails for the key \<^verbatim>\<open>clarity\<close>.
\<close>

theorem parseAndValidateJSON_FormatError_iff_witness:
  "delimiterDeterminesKind exampleEngine (trim exampleFeedbackText)
   \<and> parseAndValidateJSON exampleEngine exampleFeedbackText feedbackKeys = Inr exampleFeedback
   \<and> delimiterDeterminesKind exampleEngine (trim exampleIncompleteText)
   \<and> parseAndValidateJSON exampleEngine exampleIncompleteText feedbackKeys = Inl FormatError
   \<and> delimiterDeterminesKind exampleEngine (trim (js ''[]''))
   \<and> parseAndValidateJSON exampleEngine (js ''[]'') [js ''length''] = Inr (JArray [])
   \<and> parseAndValidateJSON exampleEngine (js ''[]'') [js ''clarity''] = Inl FormatError"
proof -
  have t1: "trim exampleFeedbackText = exampleFeedbackText"
    by (simp add: trim_def example_defs isWhiteSpace_def)
  have t2: "trim exampleIncompleteText = exampleIncompleteText"
    by (simp add: trim_def example_defs isWhiteSpace_def)
  have t3: "trim (js ''[]'') = js ''[]''"
    by (simp add: trim_def js_def isWhiteSpace_def)
  have h1: "delimiterDeterminesKind exampleEngine (trim exampleFeedbackText)"
    unfolding t1 by (simp add: delimiterDeterminesKind_def startsWith_def example_defs)
  have h2: "delimiterDeterminesKind exampleEngine (trim exampleIncompleteText)"
    unfolding t2 by (simp add: delimiterDeterminesKind_def startsWith_def example_defs)
  have h3: "delimiterDeterminesKind exampleEngine (trim (js ''[]''))"
    unfolding t3 by (simp add: delimiterDeterminesKind_def startsWith_def example_defs)
  have r1: "parseAndValidateJSON exampleEngine exampleFeedbackText feedbackKeys
      = Inr exampleFeedback"
    using parseAndValidateJSON_FormatError_iff [OF h1, of feedbackKeys] unfolding t1
    by (simp add: startsWith_def example_defs feedbackKeys_def)
  have r2: "parseAndValidateJSON exampleEngine exampleIncompleteText feedbackKeys
      = Inl FormatError"
    using parseAndValidateJSON_FormatError_iff [OF h2, of feedbackKeys] unfolding t2
    by (simp add: startsWith_def example_defs prototype_defs feedbackKeys_def)
  have r3: "parseAndValidateJSON exampleEngine (js ''[]'') [js ''length''] = Inr (JArray [])"
    using parseAndValidateJSON_FormatError_iff [OF h3, of "[js ''length'']"] unfolding t3
    by (simp add: startsWith_def example_defs)
  have r4: "parseAndValidateJSON exampleEngine (js ''[]'') [js ''clarity''] = Inl FormatError"
    using parseAndValidateJSON_FormatError_iff [OF h3, of "[js ''clarity'']"] unfolding t3
    by (simp add: startsWith_def example_defs prototype_defs arrayIndex_def)
  from h1 r1 h2 r2 h3 r3 r4 show ?thesis by simp
qed

text \<open>
  Claim C2, as the spec states it, says that generateInterviewQuestions rejects a response
  in which exactly one of \<^verbatim>\<open>companyName\<close> and \<^verbatim>\<open>approachGuide\<close> is null. The code
  asks the service for this in its instruction and checks only that the keys are
  there: the response below, with a null \<^verbatim>\<open>companyName\<close> and a guide, is returned.
\<close>

theorem generateInterviewQuestions_one_null_counterexample:
  "generateInterviewQuestions exampleEngine (Inr examplePrepText) = Inr examplePrep
   \<and> getProp exampleEngine examplePrep (js ''companyName'') = Inr (Some (Data JNull))
   \<and> getProp exampleEngine examplePrep (js ''approachGuide'')
       = Inr (Some (Data (JString (js ''Research the role''))))"
  by (simp add: generateInterviewQuestions_def parseAndValidateJSON_def try_catch_def
      trim_def startsWith_def isWhiteSpace_def example_defs)

lemma prepKeys_not_followUp:
  "key \<in> set [js ''questions'', js ''companyName'', js ''approachGuide''] \<Longrightarrow>
   key \<noteq> js ''followUpQuestion''"
  by (auto simp: js_def)

text \<open>
  Claim C2, amended. Every value generateInterviewQuestions returns is the parsed
  response, in which \<^verbatim>\<open>questions\<close>, \<^verbatim>\<open>companyName\<close> and \<^verbatim>\<open>approachGuide\<close> are all
  defined (null counts as defined); every failure is the one GenerationError; and an
  object that holds the three keys is returned whichever of them are null.
\<close>

theorem generateInterviewQuestions_presence_only:
  "(\<forall>v. generateInterviewQuestions engine response = Inr v \<longrightarrow>
      (\<exists>responseText. response = Inr responseText \<and> JSON_parse engine (trim responseText) = Inr v)
      \<and> (\<forall>key\<in>set [js ''questions'', js ''companyName'', js ''approachGuide''].
            \<exists>x. getProp engine v key = Inr (Some x)))
   \<and> (\<forall>e. generateInterviewQuestions engine response = Inl e \<longrightarrow> e = questionsGenerationError)
   \<and> (\<forall>responseText props.
        response = Inr responseText \<and> startsWith (trim responseText) (js ''{'')
        \<and> JSON_parse engine (trim responseText) = Inr (JObject props)
        \<and> (\<forall>key\<in>set [js ''questions'', js ''companyName'', js ''approachGuide''].
              \<exists>x. map_of props key = Some x)
        \<longrightarrow> generateInterviewQuestions engine response = Inr (JObject props))"
proof (intro conjI allI impI)
  fix v
  assume ok: "generateInterviewQuestions engine response = Inr v"
  then obtain t where r: "response = Inr t"
    and p: "parseAndValidateJSON engine t
              [js ''questions'', js ''companyName'', js ''approachGuide''] = Inr v"
    by (auto simp: generateInterviewQuestions_def try_catch_def split: sum.splits)
  from parseAndValidateJSON_Inr [OF p]
  have parsed: "JSON_parse engine (trim t) = Inr v"
    and keys: "checkKeys engine v [js ''questions'', js ''companyName'', js ''approachGuide'']
                 = Inr ()"
    by simp_all
  from r parsed
  show "\<exists>responseText. response = Inr responseText \<and> JSON_parse engine (trim responseText) = Inr v"
    by blast
  show "\<forall>key\<in>set [js ''questions'', js ''companyName'', js ''approachGuide''].
          \<exists>x. getProp engine v key = Inr (Some x)"
    using checkKeys_defined [OF keys] prepKeys_not_followUp by blast
next
  fix e
  assume "generateInterviewQuestions engine response = Inl e"
  then show "e = questionsGenerationError"
    by (auto simp: generateInterviewQuestions_def try_catch_def split: sum.splits)
next
  fix t props
  assume a: "response = Inr t \<and> startsWith (trim t) (js ''{'')
        \<and> JSON_parse engine (trim t) = Inr (JObject props)
        \<and> (\<forall>key\<in>set [js ''questions'', js ''companyName'', js ''approachGuide''].
              \<exists>x. map_of props key = Some x)"
  then have nonempty: "trim t \<noteq> []"
    by (auto simp: startsWith_def js_def)
  from a have "checkKeys engine (JObject props)
                 [js ''questions'', js ''companyName'', js ''approachGuide''] = Inr ()"
    by auto
  with a nonempty show "generateInterviewQuestions engine response = Inr (JObject props)"
    by (simp add: generateInterviewQuestions_def parseAndValidateJSON_def try_catch_def)
qed

text \<open>
  A response with a company name and a guide is returned with its three keys defined;
  one without the three keys is rejected.
\<close>

theorem generateInterviewQuestions_presence_only_witness:
  "generateInterviewQuestions exampleEngine (Inr exampleFullPrepText) = Inr exampleFullPrep
   \<and> (\<exists>x. getProp exampleEngine exampleFullPrep (js ''companyName'') = Inr (Some x))
   \<and> (\<exists>x. getProp exampleEngine exampleFullPrep (js ''approachGuide'') = Inr (Some x))
   \<and> generateInterviewQuestions exampleEngine (Inr exampleIncompleteText)
       = Inl questionsGenerationError"
proof -
  note claim = generateInterviewQuestions_presence_only [of exampleEngine "Inr exampleFullPrepText"]
  have t: "trim exampleFullPrepText = exampleFullPrepText"
    by (simp add: trim_def example_defs isWhiteSpace_def)
  have "startsWith (trim exampleFullPrepText) (js ''{'')
    \<and> JSON_parse exampleEngine (trim exampleFullPrepText)
        = Inr (JObject [(js ''questions'', JArray []),
                        (js ''companyName'', JString (js ''Acme Corp'')),
                        (js ''approachGuide'', JString (js ''Research the role''))])
    \<and> (\<forall>key\<in>set [js ''questions'', js ''companyName'', js ''approachGuide''].
          \<exists>x. map_of [(js ''questions'', JArray []),
                        (js ''companyName'', JString (js ''Acme Corp'')),
                        (js ''approachGuide'', JString (js ''Research the role''))] key = Some x)"
    unfolding t by (simp add: startsWith_def example_defs)
  with claim
  have returned: "generateInterviewQuestions exampleEngine (Inr exampleFullPrepText)
      = Inr exampleFullPrep"
    unfolding exampleFullPrep_def by blast
  with claim
  have defined: "\<forall>key\<in>set [js ''questions'', js ''companyName'', js ''approachGuide''].
      \<exists>x. getProp exampleEngine exampleFullPrep key = Inr (Some x)"
    by blast
  have "\<exists>e. generateInterviewQuestions exampleEngine (Inr exampleIncompleteText) = Inl e"
    by (simp add: generateInterviewQuestions_def parseAndValidateJSON_def try_catch_def
        trim_def startsWith_def isWhiteSpace_def example_defs prototype_defs)
  with generateInterviewQuestions_presence_only [of exampleEngine "Inr exampleIncompleteText"]
  have rejected: "generateInterviewQuestions exampleEngine (Inr exampleIncompleteText)
      = Inl questionsGenerationError"
    by blast
  from returned defined rejected show ?thesis
    by simp
qed

text \<open>
  Claim C3. validateJobInput never throws. When the gateway call rejects, or the
  response text does not parse, the result is the fallback verdict, whose status is
  \<^verbatim>\<open>valid\<close> and whose reason is the fallback message; in every case the result is
  either that fallback or the parsed verdict, whose status is one of the three and
  whose reason is a string.
\<close>

theorem validateJobInput_fail_open:
  "(\<exists>v. validateJobInput engine response = Inr v)
   \<and> (\<forall>e. response = Inl e \<longrightarrow> validateJobInput engine response = Inr validationFallback)
   \<and> (\<forall>responseText e.
         response = Inr responseText \<and> JSON_parse engine (trim responseText) = Inl e \<longrightarrow>
         validateJobInput engine response = Inr validationFallback)
   \<and> (validateJobInput engine response = Inr validationFallback
       \<or> (\<exists>responseText parsed status reason.
             response = Inr responseText \<and> JSON_parse engine (trim responseText) = Inr parsed
             \<and> getProp engine parsed (js ''status'') = Inr status \<and> includesStatus status
             \<and> getProp engine parsed (js ''reason'') = Inr reason \<and> typeofString reason
             \<and> validateJobInput engine response = Inr parsed))
   \<and> getProp engine validationFallback (js ''status'') = Inr (Some (Data (JString (js ''valid''))))
   \<and> getProp engine validationFallback (js ''reason'')
       = Inr (Some (Data (JString (js ''Validation check failed, proceeding anyway.''))))"
proof (intro conjI allI impI)
  show "\<exists>v. validateJobInput engine response = Inr v"
    by (simp add: validateJobInput_def try_catch_def split: sum.splits)
next
  fix e assume "response = Inl e"
  then show "validateJobInput engine response = Inr validationFallback"
    by (simp add: validateJobInput_def try_catch_def)
next
  fix t e assume "response = Inr t \<and> JSON_parse engine (trim t) = Inl e"
  then show "validateJobInput engine response = Inr validationFallback"
    by (simp add: validateJobInput_def try_catch_def)
next
  show "validateJobInput engine response = Inr validationFallback
       \<or> (\<exists>responseText parsed status reason.
             response = Inr responseText \<and> JSON_parse engine (trim responseText) = Inr parsed
             \<and> getProp engine parsed (js ''status'') = Inr status \<and> includesStatus status
             \<and> getProp engine parsed (js ''reason'') = Inr reason \<and> typeofString reason
             \<and> validateJobInput engine response = Inr parsed)"
    by (auto simp: validateJobInput_def try_catch_def split: sum.splits)
next
  show "getProp engine validationFallback (js ''status'')
      = Inr (Some (Data (JString (js ''valid''))))"
    by (simp add: validationFallback_def js_def)
next
  show "getProp engine validationFallback (js ''reason'')
       = Inr (Some (Data (JString (js ''Validation check failed, proceeding anyway.''))))"
    by (simp add: validationFallback_def js_def)
qed

text \<open>A rejected call and a response that is not JSON both give the fallback.\<close>

theorem validateJobInput_fail_open_witness:
  "validateJobInput exampleEngine (Inl (Error (js ''fetch failed''))) = Inr validationFallback
   \<and> validateJobInput exampleEngine (Inr (js ''Sorry, I cannot help'')) = Inr validationFallback"
proof -
  have "JSON_parse exampleEngine (trim (js ''Sorry, I cannot help''))
      = Inl (SyntaxError (js ''Unexpected token''))"
    by (simp add: trim_def isWhiteSpace_def example_defs)
  then show ?thesis
    using validateJobInput_fail_open [of exampleEngine "Inl (Error (js ''fetch failed''))"]
      validateJobInput_fail_open [of exampleEngine "Inr (js ''Sorry, I cannot help'')"]
    by blast
qed

section \<open>Properties of the mock interview session\<close>

text \<open>
  What the two closing actions of the handler leave, whatever the state they meet:
  FINISH_PROCESSING stores the answer at the current index and shows the feedback,
  PROCESSING_ERROR keeps the message and shows the error.
\<close>

lemma FINISH_PROCESSING_state:
  "step (mockInterviewReducer state (FINISH_PROCESSING a)) = Step_feedback"
  "isProcessing (mockInterviewReducer state (FINISH_PROCESSING a)) = False"
  "answers (mockInterviewReducer state (FINISH_PROCESSING a)) (currentIndex state) = Some a"
  "error (mockInterviewReducer state (FINISH_PROCESSING a)) = error state"
  by simp_all

lemma PROCESSING_ERROR_state:
  "step (mockInterviewReducer state (PROCESSING_ERROR m)) = Step_error"
  "isProcessing (mockInterviewReducer state (PROCESSING_ERROR m)) = False"
  "error (mockInterviewReducer state (PROCESSING_ERROR m)) = Some m"
  by simp_all

text \<open>STOP_RECORDING and START_PROCESSING leave the index, the answers and the error.\<close>

lemma processing_start_state:
  "currentIndex (mockInterviewReducer (mockInterviewReducer state STOP_RECORDING) START_PROCESSING)
     = currentIndex state"
  "answers (mockInterviewReducer (mockInterviewReducer state STOP_RECORDING) START_PROCESSING)
     = answers state"
  "error (mockInterviewReducer (mockInterviewReducer state STOP_RECORDING) START_PROCESSING)
     = error state"
  by simp_all

text \<open>
  The session that handleStopRecording leaves when the recorder is recording: the state
  after STOP_RECORDING and START_PROCESSING, closed by one of three actions, or by none
  when the audio file cannot be read.
\<close>

lemma handleStopRecording_silent:
  assumes "mediaRecorder w = Some recording" and "sum_list (audioChunks inp) < 200"
  shows "session (handleStopRecording engine questions inp w) =
     mockInterviewReducer
       (mockInterviewReducer (mockInterviewReducer (session w) STOP_RECORDING) START_PROCESSING)
       (FINISH_PROCESSING (noAudioAnswer (objectURL inp)))"
  using assms
  by (simp add: handleStopRecording_def onstop_def dispatch_def perform_def Let_def
      split: option.splits)

lemma handleStopRecording_blank:
  assumes "mediaRecorder w = Some recording" and "\<not> sum_list (audioChunks inp) < 200"
    and "transcribeAudio (fileRead inp) (transcription inp) = Settles (Inr transcribedText)"
    and "trim transcribedText = []"
  shows "session (handleStopRecording engine questions inp w) =
     mockInterviewReducer
       (mockInterviewReducer (mockInterviewReducer (session w) STOP_RECORDING) START_PROCESSING)
       (FINISH_PROCESSING (notUnderstoodAnswer (objectURL inp)))"
  using assms
  by (simp add: handleStopRecording_def onstop_def processRecording_def dispatch_def perform_def
      Let_def split: option.splits)

lemma handleStopRecording_failure:
  assumes "mediaRecorder w = Some recording" and "\<not> sum_list (audioChunks inp) < 200"
    and "processRecording engine (elementAt questions (currentIndex (session w))) inp w'
           = Settles (Inl err)"
  shows "session (handleStopRecording engine questions inp w) =
     mockInterviewReducer
       (mockInterviewReducer (mockInterviewReducer (session w) STOP_RECORDING) START_PROCESSING)
       (PROCESSING_ERROR (processingErrorMessage err))"
proof -
  have "processRecording engine q inp w1 = Settles (Inl err)"
    if "processRecording engine q inp w2 = Settles (Inl err)" for q w1 w2
    using that
    by (auto simp: processRecording_def split: settled.splits sum.splits if_splits option.splits)
  from this [OF assms(3)] assms(1,2) show ?thesis
    by (simp add: handleStopRecording_def onstop_def dispatch_def perform_def Let_def
        split: option.splits)
qed

lemma handleStopRecording_unreadable:
  assumes "mediaRecorder w = Some recording" and "\<not> sum_list (audioChunks inp) < 200"
    and "fileRead inp = None"
  shows "session (handleStopRecording engine questions inp w) =
     mockInterviewReducer (mockInterviewReducer (session w) STOP_RECORDING) START_PROCESSING"
  using assms
  by (simp add: handleStopRecording_def onstop_def processRecording_def transcribeAudio_def
      fileToGenerativePart_def dispatch_def perform_def Let_def split: option.splits)

text \<open>The gateway operations throw one error each, with a message that is not empty.\<close>

lemma transcribeAudio_Inl:
  "transcribeAudio readerResult response = Settles (Inl e) \<Longrightarrow> e = transcriptionError"
  by (auto simp: transcribeAudio_def try_catch_def split: settled.splits sum.splits)

lemma generateAnswerFeedback_Inl:
  "generateAnswerFeedback engine response = Inl e \<Longrightarrow> e = feedbackGenerationError"
  by (auto simp: generateAnswerFeedback_def try_catch_def split: sum.splits)

lemma processingErrorMessage_gateway:
  "processingErrorMessage transcriptionError = message transcriptionError"
  "processingErrorMessage feedbackGenerationError = message feedbackGenerationError"
  by (simp_all add: processingErrorMessage_def transcriptionError_def feedbackGenerationError_def
      js_def)

text \<open>
  Claim C4. When the recorded clip is smaller than 200 bytes, processing stores at the
  current index an answer whose \<^verbatim>\<open>userAnswer\<close> is "(No audio was detected)" and whose
  feedback is the message about the microphone, and the step becomes feedback: the
  session is not processing any more and its error field is untouched.
\<close>

theorem silent_clip_yields_no_audio_feedback:
  assumes "mediaRecorder w = Some recording"
    and "sum_list (audioChunks inp) < 200"
  shows "step (session (handleStopRecording engine questions inp w)) = Step_feedback
    \<and> (\<exists>a. answers (session (handleStopRecording engine questions inp w))
               (currentIndex (session w)) = Some a
          \<and> userAnswer a = js ''(No audio was detected)''
          \<and> feedback a = Plain (js ''It seems no audio was captured. Please ensure your microphone is working correctly and try recording your answer again.''))
    \<and> isProcessing (session (handleStopRecording engine questions inp w)) = False
    \<and> error (session (handleStopRecording engine questions inp w)) = error (session w)"
proof -
  let ?processing =
    "mockInterviewReducer (mockInterviewReducer (session w) STOP_RECORDING) START_PROCESSING"
  have after: "session (handleStopRecording engine questions inp w) =
      mockInterviewReducer ?processing (FINISH_PROCESSING (noAudioAnswer (objectURL inp)))"
    by (rule handleStopRecording_silent [OF assms])
  have stored: "answers (session (handleStopRecording engine questions inp w))
      (currentIndex (session w)) = Some (noAudioAnswer (objectURL inp))"
    using FINISH_PROCESSING_state(3) [of ?processing "noAudioAnswer (objectURL inp)"]
    by (simp only: after processing_start_state)
  have sentinel: "userAnswer (noAudioAnswer (objectURL inp)) = js ''(No audio was detected)''
    \<and> feedback (noAudioAnswer (objectURL inp)) = Plain (js ''It seems no audio was captured. Please ensure your microphone is working correctly and try recording your answer again.'')"
    by (simp add: noAudioAnswer_def)
  from after stored sentinel show ?thesis
    by (simp only: FINISH_PROCESSING_state processing_start_state) blast
qed

text \<open>A clip of 50 bytes, the spec's scenario B.\<close>

theorem silent_clip_yields_no_audio_feedback_witness:
  "step (session (handleStopRecording exampleEngine exampleQuestions exampleInputs
           recordingComponent)) = Step_feedback
   \<and> sum_list (audioChunks exampleInputs) = 50"
proof -
  have g: "mediaRecorder recordingComponent = Some recording"
    by (simp add: recordingComponent_def)
  have sz: "sum_list (audioChunks exampleInputs) < 200"
    by (simp add: exampleInputs_def)
  show ?thesis
    using silent_clip_yields_no_audio_feedback [OF g sz, of exampleEngine exampleQuestions]
    by (simp add: exampleInputs_def)
qed

text \<open>
  Claim C5. When the clip is large enough and the transcript is blank after trimming,
  processing stores an answer whose \<^verbatim>\<open>userAnswer\<close> is "(Could not understand audio)"
  and the step becomes feedback; the error field is untouched, and the outcome of the
  feedback call plays no part, since generateAnswerFeedback is not called.
\<close>

theorem blank_transcript_yields_not_understood_feedback:
  assumes "mediaRecorder w = Some recording"
    and "\<not> sum_list (audioChunks inp) < 200"
    and "transcribeAudio (fileRead inp) (transcription inp) = Settles (Inr transcribedText)"
    and "trim transcribedText = []"
  shows "step (session (handleStopRecording engine questions inp w)) = Step_feedback
    \<and> (\<exists>a. answers (session (handleStopRecording engine questions inp w))
               (currentIndex (session w)) = Some a
          \<and> userAnswer a = js ''(Could not understand audio)''
          \<and> feedback a = Plain (js ''We had trouble understanding the audio. Could you please try speaking more clearly and try again?''))
    \<and> error (session (handleStopRecording engine questions inp w)) = error (session w)
    \<and> (\<forall>other. handleStopRecording engine questions (inp\<lparr>feedbackGeneration := other\<rparr>) w
                  = handleStopRecording engine questions inp w)"
proof -
  let ?processing =
    "mockInterviewReducer (mockInterviewReducer (session w) STOP_RECORDING) START_PROCESSING"
  have after: "session (handleStopRecording engine questions inp w) =
      mockInterviewReducer ?processing (FINISH_PROCESSING (notUnderstoodAnswer (objectURL inp)))"
    by (rule handleStopRecording_blank [OF assms])
  have stored: "answers (session (handleStopRecording engine questions inp w))
      (currentIndex (session w)) = Some (notUnderstoodAnswer (objectURL inp))"
    using FINISH_PROCESSING_state(3) [of ?processing "notUnderstoodAnswer (objectURL inp)"]
    by (simp only: after processing_start_state)
  have sentinel: "userAnswer (notUnderstoodAnswer (objectURL inp)) = js ''(Could not understand audio)''
    \<and> feedback (notUnderstoodAnswer (objectURL inp)) = Plain (js ''We had trouble understanding the audio. Could you please try speaking more clearly and try again?'')"
    by (simp add: notUnderstoodAnswer_def)
  have unused: "\<forall>other. handleStopRecording engine questions (inp\<lparr>feedbackGeneration := other\<rparr>) w
                  = handleStopRecording engine questions inp w"
    using assms
    by (simp add: handleStopRecording_def onstop_def processRecording_def dispatch_def perform_def
        Let_def split: option.splits)
  from after stored sentinel unused show ?thesis
    by (simp only: FINISH_PROCESSING_state processing_start_state) blast
qed

text \<open>A clip of 300 bytes whose transcript is one space, the spec's scenario C.\<close>

theorem blank_transcript_yields_not_understood_feedback_witness:
  "transcribeAudio (fileRead (exampleInputs\<lparr>audioChunks := [150, 150]\<rparr>))
     (transcription (exampleInputs\<lparr>audioChunks := [150, 150]\<rparr>)) = Settles (Inr [])
   \<and> step (session (handleStopRecording exampleEngine exampleQuestions
                      (exampleInputs\<lparr>audioChunks := [150, 150]\<rparr>) recordingComponent))
       = Step_feedback"
proof -
  have g: "mediaRecorder recordingComponent = Some recording"
    by (simp add: recordingComponent_def)
  have sz: "\<not> sum_list (audioChunks (exampleInputs\<lparr>audioChunks := [150, 150]\<rparr>)) < 200"
    by simp
  have tr: "transcribeAudio (fileRead (exampleInputs\<lparr>audioChunks := [150, 150]\<rparr>))
     (transcription (exampleInputs\<lparr>audioChunks := [150, 150]\<rparr>)) = Settles (Inr [])"
    by (simp add: exampleInputs_def transcribeAudio_def fileToGenerativePart_def try_catch_def
        trim_def isWhiteSpace_def js_def)
  have blank: "trim [] = []"
    by (simp add: trim_def)
  show ?thesis
    using blank_transcript_yields_not_understood_feedback
      [OF g sz tr blank, of exampleEngine exampleQuestions] tr
    by simp
qed

text \<open>
  What holds of claim C9: when transcribeAudio throws, or generateAnswerFeedback throws
  on a transcript that is not blank, the session goes to the error step with
  \<^verbatim>\<open>isProcessing\<close> false and the message of the error in the error field.
\<close>

lemma thrown_failure_reaches_error_step:
  assumes "mediaRecorder w = Some recording"
    and "\<not> sum_list (audioChunks inp) < 200"
    and "transcribeAudio (fileRead inp) (transcription inp) = Settles (Inl err)
         \<or> (\<exists>transcribedText q.
               transcribeAudio (fileRead inp) (transcription inp) = Settles (Inr transcribedText)
               \<and> trim transcribedText \<noteq> []
               \<and> elementAt questions (currentIndex (session w)) = Some q
               \<and> generateAnswerFeedback engine (feedbackGeneration inp) = Inl err)"
  shows "step (session (handleStopRecording engine questions inp w)) = Step_error
    \<and> isProcessing (session (handleStopRecording engine questions inp w)) = False
    \<and> error (session (handleStopRecording engine questions inp w)) = Some (message err)"
proof -
  from assms(3) have e: "err = transcriptionError \<or> err = feedbackGenerationError"
    using transcribeAudio_Inl generateAnswerFeedback_Inl by blast
  from assms(3)
  have "processRecording engine (elementAt questions (currentIndex (session w))) inp w
          = Settles (Inl err)"
    by (auto simp: processRecording_def)
  from handleStopRecording_failure [OF assms(1,2) this]
  have after: "session (handleStopRecording engine questions inp w) =
     mockInterviewReducer
       (mockInterviewReducer (mockInterviewReducer (session w) STOP_RECORDING) START_PROCESSING)
       (PROCESSING_ERROR (processingErrorMessage err))" .
  from e show ?thesis
    by (auto simp only: after PROCESSING_ERROR_state processingErrorMessage_gateway)
qed

text \<open>
  The handler leaves the session processing exactly when the clip is large enough and
  the audio file cannot be read.
\<close>

lemma isProcessing_after_handleStopRecording:
  assumes "mediaRecorder w = Some recording"
  shows "isProcessing (session (handleStopRecording engine questions inp w))
     = (\<not> sum_list (audioChunks inp) < 200 \<and> fileRead inp = None)"
  using assms
  by (simp add: handleStopRecording_def onstop_def processRecording_def transcribeAudio_def
      fileToGenerativePart_def dispatch_def perform_def Let_def
      split: option.splits sum.splits)

text \<open>
  Claim C9 says that every failure while an answer is processed takes the session to
  the error step with \<^verbatim>\<open>isProcessing\<close> false, and that no failure path leaves
  \<^verbatim>\<open>isProcessing\<close> true. The code breaks it when the audio file of a clip of 300 bytes
  cannot be read: the promise of fileToGenerativePart never settles, transcribeAudio
  neither returns nor throws, and after START_PROCESSING and the new object URL the
  handler does nothing more. The session stays processing, in the question step, with
  no error.
\<close>

theorem failed_file_read_leaves_processing:
  "transcribeAudio (fileRead unreadableInputs) (transcription unreadableInputs) = NeverSettles
   \<and> isProcessing (session (handleStopRecording exampleEngine exampleQuestions unreadableInputs
                              recordingComponent)) = True
   \<and> step (session (handleStopRecording exampleEngine exampleQuestions unreadableInputs
                       recordingComponent)) = Step_question
   \<and> error (session (handleStopRecording exampleEngine exampleQuestions unreadableInputs
                        recordingComponent)) = None
   \<and> effects (handleStopRecording exampleEngine exampleQuestions unreadableInputs
                recordingComponent)
       = [Dispatch STOP_RECORDING, Dispatch START_PROCESSING, CreateObjectURL (BlobURL 1)]"
  by (simp add: unreadableInputs_def exampleInputs_def recordingComponent_def initialState_def
      handleStopRecording_def onstop_def processRecording_def transcribeAudio_def
      fileToGenerativePart_def dispatch_def perform_def Let_def)

text \<open>
  Claim C6. In the feedback step, with a question list of length N, NEXT_QUESTION gives
  the question step at the next index when the current index is below N - 1, and the
  summary step at the same index when it is N - 1.
\<close>

theorem NEXT_QUESTION_advances_or_summarises:
  assumes "step state = Step_feedback"
  shows "(currentIndex state < int (length questions) - 1 \<longrightarrow>
            step (mockInterviewReducer state (NEXT_QUESTION questions)) = Step_question
            \<and> currentIndex (mockInterviewReducer state (NEXT_QUESTION questions))
                = currentIndex state + 1)
       \<and> (currentIndex state = int (length questions) - 1 \<longrightarrow>
            step (mockInterviewReducer state (NEXT_QUESTION questions)) = Step_summary
            \<and> currentIndex (mockInterviewReducer state (NEXT_QUESTION questions))
                = currentIndex state)"
proof (cases "currentIndex state < int (length questions) - 1")
  case True
  then show ?thesis by simp
next
  case False
  then show ?thesis by simp
qed

text \<open>Two questions: from index 1 to the summary, from index 0 to index 1.\<close>

theorem NEXT_QUESTION_advances_or_summarises_witness:
  "step (mockInterviewReducer feedbackState (NEXT_QUESTION exampleQuestions)) = Step_summary
   \<and> currentIndex (mockInterviewReducer feedbackState (NEXT_QUESTION exampleQuestions)) = 1
   \<and> step (mockInterviewReducer (feedbackState\<lparr>currentIndex := 0\<rparr>)
             (NEXT_QUESTION exampleQuestions)) = Step_question
   \<and> currentIndex (mockInterviewReducer (feedbackState\<lparr>currentIndex := 0\<rparr>)
             (NEXT_QUESTION exampleQuestions)) = 1"
proof -
  have f1: "step feedbackState = Step_feedback"
    by (simp add: feedbackState_def initialState_def)
  have f0: "step (feedbackState\<lparr>currentIndex := 0\<rparr>) = Step_feedback"
    by (simp add: feedbackState_def initialState_def)
  have i1: "currentIndex feedbackState = int (length exampleQuestions) - 1"
    by (simp add: feedbackState_def initialState_def exampleQuestions_def)
  have i0: "currentIndex (feedbackState\<lparr>currentIndex := 0\<rparr>) < int (length exampleQuestions) - 1"
    by (simp add: exampleQuestions_def)
  from NEXT_QUESTION_advances_or_summarises [OF f1, of exampleQuestions] i1
    NEXT_QUESTION_advances_or_summarises [OF f0, of exampleQuestions] i0
  show ?thesis
    by (simp add: feedbackState_def initialState_def)
qed

text \<open>The actions of a recording turn change neither the answers nor the index.\<close>

lemma recording_turn_keeps_answers:
  "list_all recordingTurnAction turn \<Longrightarrow>
   answers (foldl mockInterviewReducer state turn) = answers state
   \<and> currentIndex (foldl mockInterviewReducer state turn) = currentIndex state"
proof (induction turn arbitrary: state)
  case Nil
  then show ?case by simp
next
  case (Cons action turn)
  then have "recordingTurnAction action" and rest: "list_all recordingTurnAction turn"
    by simp_all
  then have "answers (mockInterviewReducer state action) = answers state
    \<and> currentIndex (mockInterviewReducer state action) = currentIndex state"
    by (cases action) simp_all
  with Cons.IH [OF rest, of "mockInterviewReducer state action"] show ?case
    by simp
qed

text \<open>
  Claim C7. RETRY_QUESTION in the feedback step gives the question step at the same
  index and keeps the answers. When the answer stored at that index holds an object URL
  and the next recording turn ends with the stop control, the handler revokes that URL
  before it creates the URL of the new clip, and only then dispatches its closing
  action: an error, or FINISH_PROCESSING with an answer that holds the new URL and
  replaces the stored one. That is so whenever the clip is silent or its audio file can
  be read; when the file of a larger clip cannot be read, the handler revokes the
  stored URL, creates the new one and dispatches nothing, so nothing replaces the
  stored answer.
\<close>

theorem RETRY_QUESTION_releases_previous_audio:
  assumes "step state = Step_feedback"
    and "answers state (currentIndex state) = Some previous"
    and "userAudioUrl previous = Some u"
    and "list_all recordingTurnAction turn"
    and "session w = foldl mockInterviewReducer (mockInterviewReducer state RETRY_QUESTION) turn"
    and "mediaRecorder w = Some recording"
  shows "step (mockInterviewReducer state RETRY_QUESTION) = Step_question
    \<and> currentIndex (mockInterviewReducer state RETRY_QUESTION) = currentIndex state
    \<and> answers (mockInterviewReducer state RETRY_QUESTION) = answers state
    \<and> (sum_list (audioChunks inp) < 200 \<or> fileRead inp \<noteq> None \<longrightarrow>
        (\<exists>final.
          effects (handleStopRecording engine questions inp w)
            = effects w @ [Dispatch STOP_RECORDING, Dispatch START_PROCESSING, RevokeObjectURL u,
                           CreateObjectURL (objectURL inp), Dispatch final]
          \<and> ((\<exists>m. final = PROCESSING_ERROR m)
              \<or> (\<exists>a. final = FINISH_PROCESSING a \<and> userAudioUrl a = Some (objectURL inp)
                    \<and> answers (session (handleStopRecording engine questions inp w))
                         (currentIndex state) = Some a))))
    \<and> (\<not> sum_list (audioChunks inp) < 200 \<and> fileRead inp = None \<longrightarrow>
        effects (handleStopRecording engine questions inp w)
          = effects w @ [Dispatch STOP_RECORDING, Dispatch START_PROCESSING, RevokeObjectURL u,
                         CreateObjectURL (objectURL inp)])"
proof -
  from recording_turn_keeps_answers [OF assms(4), of "mockInterviewReducer state RETRY_QUESTION"]
    assms(5)
  have same: "answers (session w) = answers state" "currentIndex (session w) = currentIndex state"
    by simp_all
  have existing: "answers (session w) (currentIndex (session w)) = Some previous"
    using same assms(2) by simp
  have settled: "\<exists>final.
          effects (handleStopRecording engine questions inp w)
            = effects w @ [Dispatch STOP_RECORDING, Dispatch START_PROCESSING, RevokeObjectURL u,
                           CreateObjectURL (objectURL inp), Dispatch final]
          \<and> ((\<exists>m. final = PROCESSING_ERROR m)
              \<or> (\<exists>a. final = FINISH_PROCESSING a \<and> userAudioUrl a = Some (objectURL inp)
                    \<and> answers (session (handleStopRecording engine questions inp w))
                         (currentIndex state) = Some a))"
    if "sum_list (audioChunks inp) < 200 \<or> fileRead inp \<noteq> None"
  proof (cases "sum_list (audioChunks inp) < 200")
    case True
    with existing assms(3) assms(6) same show ?thesis
      by (simp add: handleStopRecording_def onstop_def dispatch_def perform_def Let_def
          noAudioAnswer_def)
  next
    case False
    with that obtain dataUrl where "fileRead inp = Some dataUrl"
      by auto
    with False existing assms(3) assms(6) same show ?thesis
      by (simp add: handleStopRecording_def onstop_def processRecording_def transcribeAudio_def
          fileToGenerativePart_def dispatch_def perform_def Let_def notUnderstoodAnswer_def
          split: option.splits sum.splits)
  qed
  have pending: "effects (handleStopRecording engine questions inp w)
          = effects w @ [Dispatch STOP_RECORDING, Dispatch START_PROCESSING, RevokeObjectURL u,
                         CreateObjectURL (objectURL inp)]"
    if "\<not> sum_list (audioChunks inp) < 200 \<and> fileRead inp = None"
    using that existing assms(3) assms(6)
    by (simp add: handleStopRecording_def onstop_def processRecording_def transcribeAudio_def
        fileToGenerativePart_def dispatch_def perform_def Let_def)
  from settled pending show ?thesis
    by simp
qed

text \<open>
  A retry of the second question, whose stored answer holds the URL 0: after a whole
  recording turn the handler revokes URL 0 and then creates URL 1, for the silent clip
  and for the clip whose file cannot be read.
\<close>

theorem RETRY_QUESTION_releases_previous_audio_witness:
  "step (mockInterviewReducer feedbackState RETRY_QUESTION) = Step_question
   \<and> currentIndex (mockInterviewReducer feedbackState RETRY_QUESTION) = 1
   \<and> (\<exists>final. effects (handleStopRecording exampleEngine exampleQuestions exampleInputs
                         retryComponent)
        = [Dispatch STOP_RECORDING, Dispatch START_PROCESSING, RevokeObjectURL (BlobURL 0),
           CreateObjectURL (BlobURL 1), Dispatch final])
   \<and> effects (handleStopRecording exampleEngine exampleQuestions unreadableInputs retryComponent)
        = [Dispatch STOP_RECORDING, Dispatch START_PROCESSING, RevokeObjectURL (BlobURL 0),
           CreateObjectURL (BlobURL 1)]"
proof -
  have a1: "step feedbackState = Step_feedback"
    by (simp add: feedbackState_def initialState_def)
  have a2: "answers feedbackState (currentIndex feedbackState) = Some exampleAnswer"
    by (simp add: feedbackState_def initialState_def)
  have a3: "userAudioUrl exampleAnswer = Some (BlobURL 0)"
    by (simp add: exampleAnswer_def)
  have a4: "list_all recordingTurnAction exampleTurn"
    by (simp add: exampleTurn_def)
  have a5: "session retryComponent
      = foldl mockInterviewReducer (mockInterviewReducer feedbackState RETRY_QUESTION) exampleTurn"
    by (simp add: retryComponent_def)
  have a6: "mediaRecorder retryComponent = Some recording"
    by (simp add: retryComponent_def)
  have i: "currentIndex feedbackState = 1" "effects retryComponent = []"
    "objectURL exampleInputs = BlobURL 1" "sum_list (audioChunks exampleInputs) < 200"
    "objectURL unreadableInputs = BlobURL 1" "\<not> sum_list (audioChunks unreadableInputs) < 200"
    "fileRead unreadableInputs = None"
    by (simp_all add: feedbackState_def initialState_def retryComponent_def exampleInputs_def
        unreadableInputs_def)
  from RETRY_QUESTION_releases_previous_audio
    [OF a1 a2 a3 a4 a5 a6, of exampleInputs exampleEngine exampleQuestions] i(4)
  have silent: "\<exists>final. effects (handleStopRecording exampleEngine exampleQuestions exampleInputs
                         retryComponent)
        = effects retryComponent
          @ [Dispatch STOP_RECORDING, Dispatch START_PROCESSING, RevokeObjectURL (BlobURL 0),
             CreateObjectURL (objectURL exampleInputs), Dispatch final]"
    by blast
  from RETRY_QUESTION_releases_previous_audio
    [OF a1 a2 a3 a4 a5 a6, of unreadableInputs exampleEngine exampleQuestions] i(6,7)
  have unreadable: "effects (handleStopRecording exampleEngine exampleQuestions unreadableInputs
                      retryComponent)
        = effects retryComponent
          @ [Dispatch STOP_RECORDING, Dispatch START_PROCESSING, RevokeObjectURL (BlobURL 0),
             CreateObjectURL (objectURL unreadableInputs)]"
    by blast
  from RETRY_QUESTION_releases_previous_audio
    [OF a1 a2 a3 a4 a5 a6, of exampleInputs exampleEngine exampleQuestions]
  have retried: "step (mockInterviewReducer feedbackState RETRY_QUESTION) = Step_question
    \<and> currentIndex (mockInterviewReducer feedbackState RETRY_QUESTION) = currentIndex feedbackState"
    by blast
  from silent unreadable retried show ?thesis
    by (simp only: i(1,2,3,5) append_Nil) 
qed

text \<open>
  What holds of claim C8: the initial state does not record; every action but
  START_COUNTDOWN keeps \<^verbatim>\<open>isRecording\<close> and a countdown apart, whatever state it meets;
  START_COUNTDOWN keeps them apart when it meets a state that is not recording, as
  every state is for which the Record Answer control is shown and enabled.
\<close>

lemma initialState_idle:
  "\<not> (isRecording initialState \<and> countdown initialState \<noteq> None)"
  by (simp add: initialState_def)

lemma exclusion_preserved:
  assumes "\<not> (isRecording state \<and> countdown state \<noteq> None)"
    and "action = START_COUNTDOWN \<Longrightarrow> \<not> isRecording state"
  shows "\<not> (isRecording (mockInterviewReducer state action)
            \<and> countdown (mockInterviewReducer state action) \<noteq> None)"
  using assms by (cases action) (auto simp: initialState_def split: option.splits)

lemma recordControlEnabled_not_recording:
  "recordControlEnabled state \<Longrightarrow> \<not> isRecording state"
  by (simp add: recordControlEnabled_def)


text \<open>
  Claim C10. Whenever the recorder was recording, the handler creates the object URL of
  the clip, whatever the size of the clip. For a clip smaller than 200 bytes the answer
  it stores, with \<^verbatim>\<open>userAnswer\<close> "(No audio was detected)", holds that URL, not null,
  and creating the URL and dispatching the answer are the last two things the handler
  does: the URL is not revoked.
\<close>

theorem silent_clip_keeps_object_url:
  assumes "mediaRecorder w = Some recording"
  shows "CreateObjectURL (objectURL inp)
           \<in> set (effects (handleStopRecording engine questions inp w))
    \<and> (sum_list (audioChunks inp) < 200 \<longrightarrow>
        (\<exists>a pre. answers (session (handleStopRecording engine questions inp w))
                   (currentIndex (session w)) = Some a
           \<and> userAnswer a = js ''(No audio was detected)''
           \<and> userAudioUrl a = Some (objectURL inp)
           \<and> effects (handleStopRecording engine questions inp w)
               = pre @ [CreateObjectURL (objectURL inp), Dispatch (FINISH_PROCESSING a)]))"
proof
  from assms
  show "CreateObjectURL (objectURL inp)
          \<in> set (effects (handleStopRecording engine questions inp w))"
    by (simp add: handleStopRecording_def onstop_def processRecording_def dispatch_def
        perform_def Let_def split: option.splits sum.splits settled.splits)
next
  show "sum_list (audioChunks inp) < 200 \<longrightarrow>
        (\<exists>a pre. answers (session (handleStopRecording engine questions inp w))
                   (currentIndex (session w)) = Some a
           \<and> userAnswer a = js ''(No audio was detected)''
           \<and> userAudioUrl a = Some (objectURL inp)
           \<and> effects (handleStopRecording engine questions inp w)
               = pre @ [CreateObjectURL (objectURL inp), Dispatch (FINISH_PROCESSING a)])"
  proof
    assume small: "sum_list (audioChunks inp) < 200"
    have stored: "answers (session (handleStopRecording engine questions inp w))
        (currentIndex (session w)) = Some (noAudioAnswer (objectURL inp))"
      by (simp add: handleStopRecording_silent [OF assms small])
    have log: "\<exists>pre. effects (handleStopRecording engine questions inp w)
        = pre @ [CreateObjectURL (objectURL inp),
                 Dispatch (FINISH_PROCESSING (noAudioAnswer (objectURL inp)))]"
      using assms small
      by (simp add: handleStopRecording_def onstop_def dispatch_def perform_def Let_def
          split: option.splits)
    have "userAnswer (noAudioAnswer (objectURL inp)) = js ''(No audio was detected)''
      \<and> userAudioUrl (noAudioAnswer (objectURL inp)) = Some (objectURL inp)"
      by (simp add: noAudioAnswer_def)
    with stored log
    show "\<exists>a pre. answers (session (handleStopRecording engine questions inp w))
                   (currentIndex (session w)) = Some a
           \<and> userAnswer a = js ''(No audio was detected)''
           \<and> userAudioUrl a = Some (objectURL inp)
           \<and> effects (handleStopRecording engine questions inp w)
               = pre @ [CreateObjectURL (objectURL inp), Dispatch (FINISH_PROCESSING a)]"
      by blast
  qed
qed

text \<open>The 50-byte clip: the stored answer holds URL 1.\<close>

theorem silent_clip_keeps_object_url_witness:
  "\<exists>a. answers (session (handleStopRecording exampleEngine exampleQuestions exampleInputs
                          recordingComponent)) 0 = Some a
        \<and> userAudioUrl a = Some (BlobURL 1)"
proof -
  have g: "mediaRecorder recordingComponent = Some recording"
    by (simp add: recordingComponent_def)
  have i: "sum_list (audioChunks exampleInputs) < 200" "objectURL exampleInputs = BlobURL 1"
    "currentIndex (session recordingComponent) = 0"
    by (simp_all add: exampleInputs_def recordingComponent_def initialState_def)
  from silent_clip_keeps_object_url [OF g, of exampleInputs exampleEngine exampleQuestions] i
  show ?thesis
    by auto
qed

end
